theory Spec2Isabelle
  imports Complex_Main
begin

section \<open>Hypertension CDSS: the clinical rule engine of \<open>backend/utils/preprocess.py\<close>\<close>

text \<open>
  Python \<open>int\<close> is \<^typ>\<open>int\<close>. A finite Python \<open>float\<close> is read as the real number it
  denotes, so the comparisons against the thresholds of the module are the exact ones. The
  values of a request come from a JSON parser that also yields the floats \<open>nan\<close>, \<open>inf\<close>
  and \<open>-inf\<close>: the validator's input type has them, with Python's comparisons (every
  ordering comparison with \<open>nan\<close> is false). The scoring functions are stated over
  integers and a finite bmi. Python \<open>str\<close> is \<^typ>\<open>string\<close>; a character outside ASCII
  is written as its UTF-8 bytes.
\<close>

subsection \<open>Python values\<close>

text \<open>
  The values a request dictionary can hold. \<open>PyFloat r\<close> is a finite float; \<open>PyNaN\<close>,
  \<open>PyInf\<close> and \<open>PyNegInf\<close> are the floats \<open>nan\<close>, \<open>inf\<close> and \<open>-inf\<close>. \<open>PyStr\<close> also
  stands for every other object that is neither \<open>None\<close> nor a number.
\<close>

datatype pyval =
  PyNone | PyBool bool | PyInt int | PyFloat real | PyNaN | PyInf | PyNegInf | PyStr string

datatype py_error = KeyError | TypeError

type_synonym pydict = "string \<rightharpoonup> pyval"

text \<open>
  \<open>isinstance\<close>: \<open>bool\<close> is a subclass of \<open>int\<close>, so a boolean is an instance of
  \<open>int\<close> and of \<open>(int, float)\<close>.
\<close>

fun isinstance_bool :: "pyval \<Rightarrow> bool" where
  "isinstance_bool (PyBool b) = True"
| "isinstance_bool v = False"

fun isinstance_int :: "pyval \<Rightarrow> bool" where
  "isinstance_int (PyBool b) = True"
| "isinstance_int (PyInt i) = True"
| "isinstance_int v = False"

fun isinstance_int_float :: "pyval \<Rightarrow> bool" where
  "isinstance_int_float (PyBool b) = True"
| "isinstance_int_float (PyInt i) = True"
| "isinstance_int_float (PyFloat r) = True"
| "isinstance_int_float PyNaN = True"
| "isinstance_int_float PyInf = True"
| "isinstance_int_float PyNegInf = True"
| "isinstance_int_float v = False"

text \<open>
  Ordering comparisons between numbers (a boolean counts as 0 or 1). A comparison with
  \<open>nan\<close> on either side is false; \<open>-inf\<close> is below and \<open>inf\<close> above every other number.
  A comparison with \<open>None\<close> or between a string and a number raises \<open>TypeError\<close>. The
  ordering of two strings is not needed: one operand is always a number below.
\<close>

datatype pynum = Num real | PlusInf | MinusInf | NotANumber

fun py_number :: "pyval \<Rightarrow> pynum option" where
  "py_number (PyBool b) = Some (Num (if b then 1 else 0))"
| "py_number (PyInt i) = Some (Num (of_int i))"
| "py_number (PyFloat r) = Some (Num r)"
| "py_number PyNaN = Some NotANumber"
| "py_number PyInf = Some PlusInf"
| "py_number PyNegInf = Some MinusInf"
| "py_number v = None"

fun num_lt :: "pynum \<Rightarrow> pynum \<Rightarrow> bool" where
  "num_lt NotANumber y = False"
| "num_lt x NotANumber = False"
| "num_lt (Num x) (Num y) = (x < y)"
| "num_lt x MinusInf = False"
| "num_lt PlusInf y = False"
| "num_lt x y = True"

fun num_le :: "pynum \<Rightarrow> pynum \<Rightarrow> bool" where
  "num_le NotANumber y = False"
| "num_le x NotANumber = False"
| "num_le (Num x) (Num y) = (x \<le> y)"
| "num_le MinusInf y = True"
| "num_le x PlusInf = True"
| "num_le x y = False"

definition py_lt :: "pyval \<Rightarrow> pyval \<Rightarrow> py_error + bool" where
  "py_lt a b =
     (case (py_number a, py_number b) of
        (Some x, Some y) \<Rightarrow> Inr (num_lt x y)
      | _ \<Rightarrow> Inl TypeError)"

definition py_gt :: "pyval \<Rightarrow> pyval \<Rightarrow> py_error + bool" where
  "py_gt a b =
     (case (py_number a, py_number b) of
        (Some x, Some y) \<Rightarrow> Inr (num_lt y x)
      | _ \<Rightarrow> Inl TypeError)"

definition py_ge :: "pyval \<Rightarrow> pyval \<Rightarrow> py_error + bool" where
  "py_ge a b =
     (case (py_number a, py_number b) of
        (Some x, Some y) \<Rightarrow> Inr (num_le y x)
      | _ \<Rightarrow> Inl TypeError)"

text \<open>
  \<open>str\<close> as the f-strings of the validator use it on the bounds of the range table. For
  a float the text is that of a float of integral value (\<open>10.0\<close>, \<open>70.0\<close>), the only
  floats formatted there.
\<close>

fun str_nat :: "nat \<Rightarrow> string" where
  "str_nat n =
     (if n < 10 then [''0123456789'' ! n]
      else str_nat (n div 10) @ [''0123456789'' ! (n mod 10)])"

declare str_nat.simps [simp del]

definition str_int :: "int \<Rightarrow> string" where
  "str_int i = (if i < 0 then ''-'' @ str_nat (nat (- i)) else str_nat (nat i))"

fun py_str :: "pyval \<Rightarrow> string" where
  "py_str PyNone = ''None''"
| "py_str (PyBool b) = (if b then ''True'' else ''False'')"
| "py_str (PyInt i) = str_int i"
| "py_str (PyFloat r) = str_int \<lfloor>r\<rfloor> @ ''.0''"
| "py_str PyNaN = ''nan''"
| "py_str PyInf = ''inf''"
| "py_str PyNegInf = ''-inf''"
| "py_str (PyStr s) = s"

subsection \<open>Input validation\<close>

record range_info =
  range_min :: pyval
  range_max :: pyval

definition FIELD_RANGES :: "string \<rightharpoonup> range_info" where
  "FIELD_RANGES =
     [''age'' \<mapsto> \<lparr>range_min = PyInt 1, range_max = PyInt 120\<rparr>,
      ''bmi'' \<mapsto> \<lparr>range_min = PyFloat 10, range_max = PyFloat 70\<rparr>,
      ''cholesterol'' \<mapsto> \<lparr>range_min = PyInt 50, range_max = PyInt 600\<rparr>,
      ''systolic'' \<mapsto> \<lparr>range_min = PyInt 60, range_max = PyInt 300\<rparr>,
      ''diastolic'' \<mapsto> \<lparr>range_min = PyInt 30, range_max = PyInt 200\<rparr>]"

definition REQUIRED_FIELDS :: "string list" where
  "REQUIRED_FIELDS = [''age'', ''bmi'', ''cholesterol'', ''systolic'', ''diastolic'']"

text \<open>
  The three passes of \<open>validate_inputs\<close> over \<open>REQUIRED_FIELDS\<close>. Each returns the
  message of its first failing field (\<open>Some\<close>: the function returns \<open>(False, message)\<close>
  at once) or \<open>None\<close> when the loop runs to its end. \<open>data[field]\<close> on an absent key is
  \<open>KeyError\<close>.
\<close>

fun check_missing :: "pydict \<Rightarrow> string list \<Rightarrow> string option" where
  "check_missing data [] = None"
| "check_missing data (field # rest) =
     (if data field = None then Some (''Missing required field: '' @ field)
      else if data field = Some PyNone then Some (''Missing required field: '' @ field)
      else check_missing data rest)"

fun check_types :: "pydict \<Rightarrow> string list \<Rightarrow> py_error + string option" where
  "check_types data [] = Inr None"
| "check_types data (field # rest) =
     (case data field of
        None \<Rightarrow> Inl KeyError
      | Some v \<Rightarrow>
          if isinstance_bool v \<or> \<not> isinstance_int_float v then
            Inr (Some (''Invalid value for '' @ [CHR 0x27] @ field @ [CHR 0x27]
                       @ '': must be a number''))
          else check_types data rest)"

definition range_message :: "string \<Rightarrow> range_info \<Rightarrow> string" where
  "range_message field range_info =
     ''Invalid value for '' @ [CHR 0x27] @ field @ [CHR 0x27] @ '': must be between ''
     @ py_str (range_min range_info) @ '' and '' @ py_str (range_max range_info)"

fun check_ranges :: "pydict \<Rightarrow> string list \<Rightarrow> py_error + string option" where
  "check_ranges data [] = Inr None"
| "check_ranges data (field # rest) =
     (case data field of
        None \<Rightarrow> Inl KeyError
      | Some val \<Rightarrow>
          (case FIELD_RANGES field of
             None \<Rightarrow> Inl KeyError
           | Some range_info \<Rightarrow>
               if field = ''age'' \<and> \<not> isinstance_int val then
                 Inr (Some ''Invalid value for 'age': must be a whole number'')
               else
                 (case py_lt val (range_min range_info) of
                    Inl e \<Rightarrow> Inl e
                  | Inr True \<Rightarrow> Inr (Some (range_message field range_info))
                  | Inr False \<Rightarrow>
                      (case py_gt val (range_max range_info) of
                         Inl e \<Rightarrow> Inl e
                       | Inr True \<Rightarrow> Inr (Some (range_message field range_info))
                       | Inr False \<Rightarrow> check_ranges data rest))))"

text \<open>\<open>validate_inputs\<close> returns the pair \<open>(is_valid, error_message)\<close>, or raises.\<close>

definition validate_inputs :: "pydict \<Rightarrow> py_error + (bool \<times> string option)" where
  "validate_inputs data =
     (case check_missing data REQUIRED_FIELDS of
        Some msg \<Rightarrow> Inr (False, Some msg)
      | None \<Rightarrow>
          (case check_types data REQUIRED_FIELDS of
             Inl e \<Rightarrow> Inl e
           | Inr (Some msg) \<Rightarrow> Inr (False, Some msg)
           | Inr None \<Rightarrow>
               (case check_ranges data REQUIRED_FIELDS of
                  Inl e \<Rightarrow> Inl e
                | Inr (Some msg) \<Rightarrow> Inr (False, Some msg)
                | Inr None \<Rightarrow>
                    (case (data ''diastolic'', data ''systolic'') of
                       (Some d, Some s) \<Rightarrow>
                         (case py_ge d s of
                            Inl e \<Rightarrow> Inl e
                          | Inr True \<Rightarrow> Inr (False, Some ''diastolic must be less than systolic'')
                          | Inr False \<Rightarrow> Inr (True, None))
                     | _ \<Rightarrow> Inl KeyError))))"

subsection \<open>Blood pressure classification\<close>

text \<open>The dictionary returned by \<open>classify_bp\<close> always has the three keys below.\<close>

record bp_classification =
  category :: string
  stage :: string
  color :: string

definition en_dash :: string where
  \<comment> \<open>U+2013, as it stands in the category names of stage 1 and stage 2\<close>
  "en_dash = [CHR 0xE2, CHR 0x80, CHR 0x93]"

definition classify_bp :: "int \<Rightarrow> int \<Rightarrow> bp_classification" where
  "classify_bp systolic diastolic =
     (if systolic > 180 \<or> diastolic > 120 then
        \<lparr>category = ''Hypertensive Crisis'', stage = ''crisis'', color = ''darkred''\<rparr>
      else if systolic \<ge> 140 \<or> diastolic \<ge> 90 then
        \<lparr>category = ''High BP '' @ en_dash @ '' Stage 2'', stage = ''stage2'', color = ''red''\<rparr>
      else if (systolic \<ge> 130 \<and> systolic \<le> 139) \<or> (diastolic \<ge> 80 \<and> diastolic \<le> 89) then
        \<lparr>category = ''High BP '' @ en_dash @ '' Stage 1'', stage = ''stage1'', color = ''orange''\<rparr>
      else if systolic \<ge> 120 \<and> systolic \<le> 129 \<and> diastolic < 80 then
        \<lparr>category = ''Elevated'', stage = ''elevated'', color = ''yellow''\<rparr>
      else if systolic < 120 \<and> diastolic < 80 then
        \<lparr>category = ''Normal'', stage = ''normal'', color = ''green''\<rparr>
      else
        \<lparr>category = ''Unknown'', stage = ''unknown'', color = ''gray''\<rparr>)"

subsection \<open>Risk factors and risk score\<close>



definition calculate_risk_score :: "int \<Rightarrow> real \<Rightarrow> int \<Rightarrow> int \<Rightarrow> int \<Rightarrow> int" where
  "calculate_risk_score age bmi cholesterol systolic diastolic =
     (let risk = 0;
          risk =
            (if systolic \<ge> 180 then risk + 42
             else if systolic \<ge> 140 then risk + 35
             else if systolic \<ge> 130 then risk + 22
             else if systolic \<ge> 120 then risk + 9
             else risk);
          risk =
            (if diastolic \<ge> 120 then risk + 30
             else if diastolic \<ge> 90 then risk + 22
             else if diastolic \<ge> 80 then risk + 12
             else risk);
          risk =
            (if age \<ge> 70 then risk + 14
             else if age \<ge> 60 then risk + 10
             else if age \<ge> 45 then risk + 6
             else risk);
          risk =
            (if bmi \<ge> 35 then risk + 12
             else if bmi \<ge> 30 then risk + 8
             else if bmi \<ge> 25 then risk + 4
             else risk);
          risk =
            (if cholesterol \<ge> 280 then risk + 10
             else if cholesterol \<ge> 240 then risk + 7
             else if cholesterol \<ge> 200 then risk + 3
             else risk)
      in min 100 (max 0 risk))"

subsection \<open>Confidence\<close>

text \<open>
  \<open>round(x, ndigits)\<close>: the closest multiple of ten to the power \<open>-ndigits\<close>, a tie
  going to the even choice.
\<close>

definition round_half_even :: "real \<Rightarrow> int" where
  "round_half_even x =
     (let f = \<lfloor>x\<rfloor>; r = x - of_int f
      in if r < 1 / 2 then f else if 1 / 2 < r then f + 1 else if even f then f else f + 1)"

definition py_round :: "real \<Rightarrow> nat \<Rightarrow> real" where
  "py_round x ndigits = of_int (round_half_even (x * 10 ^ ndigits)) / 10 ^ ndigits"

definition classify_confidence_band :: "real \<Rightarrow> string" where
  "classify_confidence_band c =
     (if c < 72 then ''Low'' else if c \<le> 82 then ''Moderate'' else ''High'')"

text \<open>
  \<open>calculate_confidence(probabilities, risk_score=50)\<close>; \<open>probabilities\<close> is the array of
  class probabilities, \<open>x ** 0.5\<close> is \<open>x powr 0.5\<close>.
\<close>

record confidence_result =
  confidence :: real
  confidenceBand :: string

definition calculate_confidence :: "real list \<Rightarrow> int \<Rightarrow> confidence_result" where
  "calculate_confidence probabilities risk_score =
     (let DISPLAY_MIN = 60;
          DISPLAY_MAX = 90;
          MAX_DISTANCE = 50;
          distance = \<bar>risk_score - 50\<bar>;
          normalised = min (of_int distance / MAX_DISTANCE) 1;
          curved = normalised powr 0.5;
          conf = py_round (DISPLAY_MIN + curved * (DISPLAY_MAX - DISPLAY_MIN)) 1;
          conf = max DISPLAY_MIN (min DISPLAY_MAX conf);
          band = classify_confidence_band conf
      in \<lparr>confidence = conf, confidenceBand = band\<rparr>)"

section \<open>The specification's reading\<close>

subsection \<open>The validator's checks\<close>

text \<open>
  The per-field checks as the validator makes them: a field is present (there and not
  null), numeric (an integer or a float, not a boolean), age is of integer type, and the
  range test of the field passes: the value is neither below the minimum nor above the
  maximum.
\<close>

definition field_present :: "pydict \<Rightarrow> string \<Rightarrow> bool" where
  "field_present data f = (case data f of None \<Rightarrow> False | Some PyNone \<Rightarrow> False | Some v \<Rightarrow> True)"

definition field_value :: "pydict \<Rightarrow> string \<Rightarrow> pynum option" where
  "field_value data f =
     (case data f of
        Some (PyInt i) \<Rightarrow> Some (Num (of_int i))
      | Some (PyFloat r) \<Rightarrow> Some (Num r)
      | Some PyNaN \<Rightarrow> Some NotANumber
      | Some PyInf \<Rightarrow> Some PlusInf
      | Some PyNegInf \<Rightarrow> Some MinusInf
      | _ \<Rightarrow> None)"

definition field_numeric :: "pydict \<Rightarrow> string \<Rightarrow> bool" where
  "field_numeric data f = (field_value data f \<noteq> None)"

definition age_is_int :: "pydict \<Rightarrow> bool" where
  "age_is_int data = (case data ''age'' of Some (PyInt i) \<Rightarrow> True | _ \<Rightarrow> False)"

definition spec_field_range :: "string \<Rightarrow> (real \<times> real) option" where
  "spec_field_range f =
     (if f = ''age'' then Some (1, 120)
      else if f = ''bmi'' then Some (10, 70)
      else if f = ''cholesterol'' then Some (50, 600)
      else if f = ''systolic'' then Some (60, 300)
      else if f = ''diastolic'' then Some (30, 200)
      else None)"

definition range_test_passes :: "pydict \<Rightarrow> string \<Rightarrow> bool" where
  "range_test_passes data f =
     (case (field_value data f, spec_field_range f) of
        (Some x, Some (lo, hi)) \<Rightarrow> \<not> num_lt x (Num lo) \<and> \<not> num_lt (Num hi) x
      | _ \<Rightarrow> False)"

definition per_field_checks_pass :: "pydict \<Rightarrow> bool" where
  "per_field_checks_pass data \<longleftrightarrow>
     list_all (field_present data) REQUIRED_FIELDS
     \<and> list_all (field_numeric data) REQUIRED_FIELDS
     \<and> age_is_int data
     \<and> list_all (range_test_passes data) REQUIRED_FIELDS"

text \<open>
  The properties the specification names: the value of a field lies in its range, and
  diastolic is at least, or less than, systolic, in Python's comparisons.
\<close>

definition field_in_range :: "pydict \<Rightarrow> string \<Rightarrow> bool" where
  "field_in_range data f =
     (case (field_value data f, spec_field_range f) of
        (Some x, Some (lo, hi)) \<Rightarrow> num_le (Num lo) x \<and> num_le x (Num hi)
      | _ \<Rightarrow> False)"

definition diastolic_ge_systolic :: "pydict \<Rightarrow> bool" where
  "diastolic_ge_systolic data =
     (case (field_value data ''diastolic'', field_value data ''systolic'') of
        (Some d, Some s) \<Rightarrow> num_le s d
      | _ \<Rightarrow> False)"

definition diastolic_lt_systolic :: "pydict \<Rightarrow> bool" where
  "diastolic_lt_systolic data =
     (case (field_value data ''diastolic'', field_value data ''systolic'') of
        (Some d, Some s) \<Rightarrow> num_lt d s
      | _ \<Rightarrow> False)"

text \<open>A request with all five fields.\<close>

definition patient :: "pyval \<Rightarrow> pyval \<Rightarrow> pyval \<Rightarrow> pyval \<Rightarrow> pyval \<Rightarrow> pydict" where
  "patient a b c s d =
     [''age'' \<mapsto> a, ''bmi'' \<mapsto> b, ''cholesterol'' \<mapsto> c, ''systolic'' \<mapsto> s, ''diastolic'' \<mapsto> d]"

subsection \<open>The blood pressure rule table\<close>

text \<open>
  The rule table as the specification words it: an ordered list of (predicate, value)
  pairs read top-down, the first match winning, with Unknown as the fallback.
\<close>

definition bp_crisis :: bp_classification where
  "bp_crisis = \<lparr>category = ''Hypertensive Crisis'', stage = ''crisis'', color = ''darkred''\<rparr>"

definition bp_stage2 :: bp_classification where
  "bp_stage2 =
     \<lparr>category = ''High BP '' @ en_dash @ '' Stage 2'', stage = ''stage2'', color = ''red''\<rparr>"

definition bp_stage1 :: bp_classification where
  "bp_stage1 =
     \<lparr>category = ''High BP '' @ en_dash @ '' Stage 1'', stage = ''stage1'', color = ''orange''\<rparr>"

definition bp_elevated :: bp_classification where
  "bp_elevated = \<lparr>category = ''Elevated'', stage = ''elevated'', color = ''yellow''\<rparr>"

definition bp_normal :: bp_classification where
  "bp_normal = \<lparr>category = ''Normal'', stage = ''normal'', color = ''green''\<rparr>"

definition bp_unknown :: bp_classification where
  "bp_unknown = \<lparr>category = ''Unknown'', stage = ''unknown'', color = ''gray''\<rparr>"

type_synonym bp_rule = "(int \<Rightarrow> int \<Rightarrow> bool) \<times> bp_classification"

definition spec_bp_rules :: "bp_rule list" where
  "spec_bp_rules =
     [(\<lambda>s d. s > 180 \<or> d > 120, bp_crisis),
      (\<lambda>s d. s \<ge> 140 \<or> d \<ge> 90, bp_stage2),
      (\<lambda>s d. s \<in> {130..139} \<or> d \<in> {80..89}, bp_stage1),
      (\<lambda>s d. s \<in> {120..129} \<and> d < 80, bp_elevated),
      (\<lambda>s d. s < 120 \<and> d < 80, bp_normal)]"

fun first_match :: "bp_rule list \<Rightarrow> int \<Rightarrow> int \<Rightarrow> bp_classification" where
  "first_match [] s d = bp_unknown"
| "first_match ((p, v) # rules) s d = (if p s d then v else first_match rules s d)"

subsection \<open>The weight ladders of the risk score\<close>

text \<open>One weight per dimension, from the first threshold reached, else 0.\<close>

definition systolic_weight :: "int \<Rightarrow> int" where
  "systolic_weight s = (if s \<ge> 180 then 42 else if s \<ge> 140 then 35 else if s \<ge> 130 then 22
                        else if s \<ge> 120 then 9 else 0)"

definition diastolic_weight :: "int \<Rightarrow> int" where
  "diastolic_weight d = (if d \<ge> 120 then 30 else if d \<ge> 90 then 22 else if d \<ge> 80 then 12 else 0)"

definition age_weight :: "int \<Rightarrow> int" where
  "age_weight a = (if a \<ge> 70 then 14 else if a \<ge> 60 then 10 else if a \<ge> 45 then 6 else 0)"

definition bmi_weight :: "real \<Rightarrow> int" where
  "bmi_weight b = (if b \<ge> 35 then 12 else if b \<ge> 30 then 8 else if b \<ge> 25 then 4 else 0)"

definition cholesterol_weight :: "int \<Rightarrow> int" where
  "cholesterol_weight c = (if c \<ge> 280 then 10 else if c \<ge> 240 then 7 else if c \<ge> 200 then 3 else 0)"

definition weight_sum :: "int \<Rightarrow> real \<Rightarrow> int \<Rightarrow> int \<Rightarrow> int \<Rightarrow> int" where
  "weight_sum a b c s d =
     systolic_weight s + diastolic_weight d + age_weight a + bmi_weight b + cholesterol_weight c"

subsection \<open>The confidence formula\<close>

definition spec_confidence :: "int \<Rightarrow> real" where
  "spec_confidence r = py_round (60 + sqrt (min (of_int \<bar>r - 50\<bar> / 50) 1) * 30) 1"

section \<open>Properties\<close>

subsection \<open>Blood pressure classification\<close>

lemmas bp_values =
  bp_crisis_def bp_stage2_def bp_stage1_def bp_elevated_def bp_normal_def bp_unknown_def

text \<open>
  C1 (as amended). For systolic 125 and diastolic 85 the classifier returns High BP, Stage 1
  (stage \<open>stage1\<close>, colour orange): diastolic 85 lies inside the diastolic range 80..89 of
  the Stage 1 rule, which is read before Elevated, Normal and the fallback.
\<close>

theorem classify_bp_125_85_stage1:
  "classify_bp 125 85 =
     \<lparr>category = ''High BP '' @ en_dash @ '' Stage 1'', stage = ''stage1'', color = ''orange''\<rparr>"
  by (simp add: classify_bp_def)

text \<open>
  C1 as stated fails: at systolic 125 and diastolic 85 the result is not the Unknown
  record; its stage is \<open>stage1\<close> and its colour orange, not \<open>unknown\<close> and gray.
\<close>

theorem classify_bp_125_85_not_unknown:
  "classify_bp 125 85 \<noteq> \<lparr>category = ''Unknown'', stage = ''unknown'', color = ''gray''\<rparr>
   \<and> stage (classify_bp 125 85) = ''stage1'' \<and> color (classify_bp 125 85) = ''orange''"
  by (simp add: classify_bp_def)

text \<open>
  C2. For all integers systolic and diastolic, \<open>classify_bp\<close> returns one of the five named
  categories, and never the Unknown record: the fallback branch is unreachable.
\<close>

theorem classify_bp_never_unknown:
  "classify_bp s d \<in> {bp_crisis, bp_stage2, bp_stage1, bp_elevated, bp_normal}
   \<and> classify_bp s d \<noteq> bp_unknown
   \<and> category (classify_bp s d) \<noteq> ''Unknown''"
  by (simp add: classify_bp_def bp_values en_dash_def)

text \<open>
  C7. \<open>classify_bp\<close> is the first matching rule of the ordered table, and the crisis rule
  is strict: (180, 80) is Stage 2 and not crisis, (181, 80) is crisis, (139, 70) is Stage 1
  and (140, 70) is Stage 2.
\<close>

theorem classify_bp_first_match_boundaries:
  "classify_bp s d = first_match spec_bp_rules s d
   \<and> classify_bp 180 80 = bp_stage2 \<and> classify_bp 180 80 \<noteq> bp_crisis
   \<and> classify_bp 181 80 = bp_crisis
   \<and> classify_bp 139 70 = bp_stage1
   \<and> classify_bp 140 70 = bp_stage2"
  by (simp add: classify_bp_def spec_bp_rules_def bp_values)

subsection \<open>Risk score and risk factors\<close>

text \<open>A ladder of updates of one accumulator adds (appends) what the ladder selects.\<close>

lemma ladder4_add:
  "(if p then r + a else if q then r + b else if t then r + c else if u then r + e else r) =
   r + (if p then a else if q then b else if t then c else if u then e else (0::int))"
  by simp

lemma ladder3_add:
  "(if p then r + a else if q then r + b else if t then r + c else r) =
   r + (if p then a else if q then b else if t then c else (0::int))"
  by simp



lemmas weight_defs = systolic_weight_def diastolic_weight_def age_weight_def bmi_weight_def
  cholesterol_weight_def

lemma calculate_risk_score_sum:
  "calculate_risk_score a b c s d = min 100 (max 0 (weight_sum a b c s d))"
  unfolding calculate_risk_score_def weight_sum_def weight_defs
  apply (simp only: ladder4_add ladder3_add Let_def)
  apply (simp only: add_0)
  done

lemma systolic_weight_range: "0 \<le> systolic_weight s \<and> systolic_weight s \<le> 42"
  by (simp add: systolic_weight_def)

lemma diastolic_weight_range: "0 \<le> diastolic_weight s \<and> diastolic_weight s \<le> 30"
  by (simp add: diastolic_weight_def)

lemma age_weight_range: "0 \<le> age_weight s \<and> age_weight s \<le> 14"
  by (simp add: age_weight_def)

lemma bmi_weight_range: "0 \<le> bmi_weight s \<and> bmi_weight s \<le> 12"
  by (simp add: bmi_weight_def)

lemma cholesterol_weight_range: "0 \<le> cholesterol_weight s \<and> cholesterol_weight s \<le> 10"
  by (simp add: cholesterol_weight_def)

lemma weight_sum_range: "0 \<le> weight_sum a b c s d \<and> weight_sum a b c s d \<le> 108"
  using systolic_weight_range [of s] diastolic_weight_range [of d] age_weight_range [of a]
    bmi_weight_range [of b] cholesterol_weight_range [of c]
  unfolding weight_sum_def by linarith









text \<open>
  C3. For every input, \<open>calculate_risk_score\<close> is the sum of the five ladder weights (at most
  one per dimension, else 0) clamped to 0..100; the result lies in 0..100; the unclamped
  sum is at most 108, and 108 is reached (age 70, bmi 35, cholesterol 280, systolic 180,
  diastolic 120), where the score is 100.
\<close>

theorem calculate_risk_score_weights_clamped:
  "calculate_risk_score a b c s d =
     min 100 (max 0 (systolic_weight s + diastolic_weight d + age_weight a + bmi_weight b
                     + cholesterol_weight c))
   \<and> 0 \<le> calculate_risk_score a b c s d \<and> calculate_risk_score a b c s d \<le> 100
   \<and> 0 \<le> weight_sum a b c s d \<and> weight_sum a b c s d \<le> 108
   \<and> weight_sum 70 35 280 180 120 = 108
   \<and> calculate_risk_score 70 35 280 180 120 = 100"
proof -
  have "calculate_risk_score a b c s d = min 100 (max 0 (weight_sum a b c s d))"
    by (rule calculate_risk_score_sum)
  moreover have "weight_sum 70 35 280 180 120 = 108"
    by (simp add: weight_sum_def weight_defs)
  moreover have "calculate_risk_score 70 35 280 180 120 = 100"
    by (simp add: calculate_risk_score_def)
  ultimately show ?thesis
    using weight_sum_range [of a b c s d] by (simp add: weight_sum_def)
qed


subsection \<open>Confidence\<close>

lemma round_half_even_floor:
  "\<lfloor>x\<rfloor> \<le> round_half_even x \<and> round_half_even x \<le> \<lfloor>x\<rfloor> + 1"
  by (simp add: round_half_even_def Let_def)

lemma round_half_even_of_int: "round_half_even (of_int k) = k"
  by (simp add: round_half_even_def Let_def)

lemma round_half_even_bounds:
  assumes "of_int lo \<le> x" "x \<le> of_int hi"
  shows "lo \<le> round_half_even x \<and> round_half_even x \<le> hi"
proof -
  have lo: "lo \<le> \<lfloor>x\<rfloor>" using assms(1) by (simp add: le_floor_iff)
  have up: "round_half_even x \<le> hi"
  proof (cases "x = of_int hi")
    case True
    then show ?thesis by (simp add: round_half_even_of_int)
  next
    case False
    then have "x < of_int hi" using assms(2) by simp
    then have "\<lfloor>x\<rfloor> < hi" by (simp add: floor_less_iff)
    then show ?thesis using round_half_even_floor [of x] by linarith
  qed
  show ?thesis using lo up round_half_even_floor [of x] by linarith
qed

lemma py_round1_bounds:
  assumes "of_int lo \<le> x" "x \<le> of_int hi"
  shows "of_int lo \<le> py_round x 1 \<and> py_round x 1 \<le> of_int hi"
proof -
  have "of_int (lo * 10) \<le> x * 10" "x * 10 \<le> of_int (hi * 10)" using assms by simp_all
  from round_half_even_bounds [OF this]
  have "lo * 10 \<le> round_half_even (x * 10)" "round_half_even (x * 10) \<le> hi * 10" by simp_all
  then have "of_int (lo * 10) \<le> (of_int (round_half_even (x * 10)) :: real)"
    "(of_int (round_half_even (x * 10)) :: real) \<le> of_int (hi * 10)"
    by (simp_all only: of_int_le_iff)
  then show ?thesis by (simp add: py_round_def field_simps)
qed

lemma py_round1_exact: "py_round (of_int k / 10) 1 = of_int k / 10"
  by (simp add: py_round_def round_half_even_of_int)

lemma curve_bounds:
  "0 \<le> min (of_int \<bar>r - 50\<bar> / 50) (1::real) powr 0.5
   \<and> min (of_int \<bar>r - 50\<bar> / 50) (1::real) powr 0.5 \<le> 1"
proof -
  let ?n = "min (of_int \<bar>r - 50\<bar> / 50) (1::real)"
  have n: "0 \<le> ?n" "?n \<le> 1" by simp_all
  have "?n powr 0.5 \<le> 1 powr 0.5" using n by (intro powr_mono2) simp_all
  then show ?thesis by simp
qed

text \<open>The clamp to 60..90 after rounding changes nothing: the formula stays in range.\<close>

lemma confidence_unclamped:
  "confidence (calculate_confidence p r) = spec_confidence r"
proof -
  let ?n = "min (of_int \<bar>r - 50\<bar> / 50) (1::real)"
  let ?x = "60 + ?n powr 0.5 * (90 - 60)"
  have c: "0 \<le> ?n powr 0.5" "?n powr 0.5 \<le> 1" using curve_bounds [of r] by simp_all
  have "of_int 60 \<le> ?x" "?x \<le> of_int 90" using c by simp_all
  from py_round1_bounds [OF this]
  have b: "60 \<le> py_round ?x 1" "py_round ?x 1 \<le> 90" by simp_all
  have n: "0 \<le> ?n" by simp
  have s: "?n powr 0.5 = sqrt ?n" using powr_half_sqrt [OF n] by simp
  have "confidence (calculate_confidence p r) = max 60 (min 90 (py_round ?x 1))"
    by (simp add: calculate_confidence_def Let_def)
  also have "\<dots> = py_round ?x 1" using b by linarith
  also have "\<dots> = spec_confidence r" unfolding spec_confidence_def s by simp
  finally show ?thesis .
qed

lemma calculate_confidence_band:
  "confidenceBand (calculate_confidence p r) =
     classify_confidence_band (confidence (calculate_confidence p r))"
  by (simp add: calculate_confidence_def Let_def)

lemma calculate_confidence_spec:
  "calculate_confidence p r =
     \<lparr>confidence = spec_confidence r,
      confidenceBand = classify_confidence_band (spec_confidence r)\<rparr>"
proof -
  have "calculate_confidence p r =
      \<lparr>confidence = confidence (calculate_confidence p r),
       confidenceBand = confidenceBand (calculate_confidence p r)\<rparr>"
    by simp
  then show ?thesis
    by (simp only: calculate_confidence_band confidence_unclamped)
qed

lemma spec_confidence_50: "spec_confidence 50 = 60"
  using py_round1_exact [of 600] by (simp add: spec_confidence_def)

lemma spec_confidence_0: "spec_confidence 0 = 90"
  using py_round1_exact [of 900] by (simp add: spec_confidence_def)

lemma spec_confidence_100: "spec_confidence 100 = 90"
  using py_round1_exact [of 900] by (simp add: spec_confidence_def)

lemma sqrt_4_25: "sqrt (4 / 25) = 2 / 5"
  by (rule real_sqrt_unique) (simp_all add: power2_eq_square)

lemma spec_confidence_58: "spec_confidence 58 = 72"
  using py_round1_exact [of 720] by (simp add: spec_confidence_def sqrt_4_25)

text \<open>
  C4. For every risk score in 0..100 the confidence lies in 60..90, and the band is Low
  exactly when the confidence is below 72, Moderate exactly when it is in 72..82 (both ends
  included: 72.0 and 82.0 are Moderate) and High exactly when it is above 82.
\<close>

theorem confidence_range_and_band:
  assumes "0 \<le> r" "r \<le> 100"
  shows "60 \<le> confidence (calculate_confidence p r)
    \<and> confidence (calculate_confidence p r) \<le> 90
    \<and> (confidenceBand (calculate_confidence p r) = ''Low''
          \<longleftrightarrow> confidence (calculate_confidence p r) < 72)
    \<and> (confidenceBand (calculate_confidence p r) = ''Moderate''
          \<longleftrightarrow> 72 \<le> confidence (calculate_confidence p r)
              \<and> confidence (calculate_confidence p r) \<le> 82)
    \<and> (confidenceBand (calculate_confidence p r) = ''High''
          \<longleftrightarrow> 82 < confidence (calculate_confidence p r))
    \<and> classify_confidence_band 72 = ''Moderate''
    \<and> classify_confidence_band 82 = ''Moderate''"
proof -
  have b: "60 \<le> confidence (calculate_confidence p r)"
    "confidence (calculate_confidence p r) \<le> 90"
    by (simp_all add: calculate_confidence_def Let_def)
  show ?thesis
    unfolding calculate_confidence_band using b
    by (simp add: classify_confidence_band_def)
qed

text \<open>
  The theorem at risk score 58: the distance from 50 is 8, the confidence is exactly 72.0
  and the band is Moderate, not Low.
\<close>

theorem confidence_range_and_band_witness:
  "(0::int) \<le> 58 \<and> (58::int) \<le> 100
    \<and> confidence (calculate_confidence [0, 1] 58) = 72
    \<and> confidenceBand (calculate_confidence [0, 1] 58) = ''Moderate''
    \<and> \<not> confidence (calculate_confidence [0, 1] 58) < 72"
  using confidence_range_and_band [of 58 "[0, 1]"] confidence_unclamped [of "[0, 1]" 58]
  by (simp add: spec_confidence_58)

text \<open>
  C5. At risk score 50 the confidence is 60.0 and the band Low; at 0 and at 100 the
  confidence is 90.0 and the band High; and for every risk score the confidence is
  \<open>round(60 + sqrt(min(|risk_score - 50| / 50, 1.0)) * 30, 1)\<close>.
\<close>

theorem confidence_at_50_0_100:
  "calculate_confidence p 50 = \<lparr>confidence = 60, confidenceBand = ''Low''\<rparr>
   \<and> calculate_confidence p 0 = \<lparr>confidence = 90, confidenceBand = ''High''\<rparr>
   \<and> calculate_confidence p 100 = \<lparr>confidence = 90, confidenceBand = ''High''\<rparr>
   \<and> confidence (calculate_confidence p r) =
       py_round (60 + sqrt (min (of_int \<bar>r - 50\<bar> / 50) 1) * 30) 1"
  unfolding calculate_confidence_spec spec_confidence_50 spec_confidence_0 spec_confidence_100
  by (simp add: classify_confidence_band_def spec_confidence_def)

text \<open>
  C6. The result of \<open>calculate_confidence\<close> does not depend on the probabilities: for every
  risk score and any two probability arrays the results are equal.
\<close>

theorem calculate_confidence_ignores_probabilities:
  "calculate_confidence p1 r = calculate_confidence p2 r"
  by (simp add: calculate_confidence_def)

subsection \<open>Input validation\<close>

lemma required_cases:
  "f \<in> set REQUIRED_FIELDS \<longleftrightarrow>
     f = ''age'' \<or> f = ''bmi'' \<or> f = ''cholesterol'' \<or> f = ''systolic'' \<or> f = ''diastolic''"
  by (simp add: REQUIRED_FIELDS_def)

lemma field_ranges_known:
  assumes "f \<in> set REQUIRED_FIELDS"
  shows "\<exists>ri lo hi. FIELD_RANGES f = Some ri \<and> py_number (range_min ri) = Some (Num lo)
           \<and> py_number (range_max ri) = Some (Num hi) \<and> spec_field_range f = Some (lo, hi)"
  using assms unfolding required_cases
  by (elim disjE) (simp_all add: FIELD_RANGES_def spec_field_range_def)

lemma check_missing_None:
  "check_missing data fs = None \<longleftrightarrow> list_all (field_present data) fs"
  by (induction fs) (auto simp: field_present_def split: option.splits pyval.splits)

lemma check_missing_Some:
  "check_missing data fs = Some m \<Longrightarrow> \<exists>f. m = ''Missing required field: '' @ f"
  by (induction fs) (auto split: if_splits)

lemma present_numeric_cases:
  "field_numeric data f \<longleftrightarrow>
     (\<exists>v. data f = Some v \<and> isinstance_int_float v \<and> \<not> isinstance_bool v)"
  by (auto simp: field_numeric_def field_value_def split: option.splits pyval.splits)

lemma check_types_None:
  assumes "list_all (field_present data) fs"
  shows "check_types data fs = Inr None \<longleftrightarrow> list_all (field_numeric data) fs"
  using assms
proof (induction fs)
  case Nil
  then show ?case by simp
next
  case (Cons f fs)
  from Cons.prems obtain v where v: "data f = Some v" "v \<noteq> PyNone"
    by (auto simp: field_present_def split: option.splits pyval.splits)
  show ?case using Cons v by (cases v) (simp_all add: present_numeric_cases)
qed

lemma check_types_result:
  assumes "list_all (field_present data) fs"
  shows "check_types data fs = Inr None
         \<or> (\<exists>f\<in>set fs. check_types data fs = Inr (Some (''Invalid value for '' @ [CHR 0x27] @ f
                @ [CHR 0x27] @ '': must be a number'')))"
  using assms
proof (induction fs)
  case Nil
  then show ?case by simp
next
  case (Cons f fs)
  from Cons.prems obtain v where v: "data f = Some v"
    by (auto simp: field_present_def split: option.splits)
  show ?case using Cons v by auto
qed

lemma range_message_not_whole:
  "f \<in> set REQUIRED_FIELDS \<Longrightarrow> range_message f ri \<noteq> ''Invalid value for 'age': must be a whole number''"
  unfolding required_cases by (elim disjE) (simp_all add: range_message_def)

lemma range_message_not_cross:
  "range_message f ri \<noteq> ''diastolic must be less than systolic''"
  by (simp add: range_message_def)

lemma not_number_message_not_whole:
  "f \<in> set REQUIRED_FIELDS \<Longrightarrow>
     ''Invalid value for '' @ [CHR 0x27] @ f @ [CHR 0x27] @ '': must be a number''
       \<noteq> ''Invalid value for 'age': must be a whole number''"
  unfolding required_cases by (elim disjE) simp_all

lemma check_ranges_step:
  assumes "data f = Some v" "py_number v = Some x" "FIELD_RANGES f = Some ri"
    "py_number (range_min ri) = Some lo" "py_number (range_max ri) = Some hi"
  shows "check_ranges data (f # fs) =
     (if f = ''age'' \<and> \<not> isinstance_int v
        then Inr (Some ''Invalid value for 'age': must be a whole number'')
      else if num_lt x lo \<or> num_lt hi x then Inr (Some (range_message f ri))
      else check_ranges data fs)"
  using assms by (auto simp: py_lt_def py_gt_def split: bool.splits)

lemma numeric_value:
  assumes "field_numeric data f"
  obtains v x where "data f = Some v" "py_number v = Some x" "field_value data f = Some x"
    "isinstance_int v \<longleftrightarrow> (\<exists>i. v = PyInt i)"
proof -
  from assms obtain v where v: "data f = Some v" "isinstance_int_float v"
    "\<not> isinstance_bool v"
    unfolding present_numeric_cases by blast
  then obtain x where "py_number v = Some x" "field_value data f = Some x"
    "isinstance_int v \<longleftrightarrow> (\<exists>i. v = PyInt i)"
    by (cases v) (simp_all add: field_value_def)
  with v(1) show thesis by (rule that)
qed

lemma check_ranges_None:
  assumes "list_all (field_numeric data) fs" "set fs \<subseteq> set REQUIRED_FIELDS"
  shows "check_ranges data fs = Inr None \<longleftrightarrow>
           (''age'' \<in> set fs \<longrightarrow> age_is_int data) \<and> list_all (range_test_passes data) fs"
  using assms
proof (induction fs)
  case Nil
  then show ?case by simp
next
  case (Cons f fs)
  from Cons.prems have num: "field_numeric data f" and req: "f \<in> set REQUIRED_FIELDS" by simp_all
  from num obtain v x where v: "data f = Some v" "py_number v = Some x"
    "field_value data f = Some x" "isinstance_int v \<longleftrightarrow> (\<exists>i. v = PyInt i)"
    by (rule numeric_value)
  from field_ranges_known [OF req] obtain ri lo hi where r: "FIELD_RANGES f = Some ri"
    "py_number (range_min ri) = Some (Num lo)" "py_number (range_max ri) = Some (Num hi)"
    "spec_field_range f = Some (lo, hi)" by blast
  have inr: "range_test_passes data f \<longleftrightarrow> \<not> num_lt x (Num lo) \<and> \<not> num_lt (Num hi) x"
    by (simp add: range_test_passes_def v r)
  have age: "f = ''age'' \<Longrightarrow> age_is_int data \<longleftrightarrow> isinstance_int v"
    using v by (cases v) (simp_all add: age_is_int_def)
  have IH: "check_ranges data fs = Inr None \<longleftrightarrow>
           (''age'' \<in> set fs \<longrightarrow> age_is_int data) \<and> list_all (range_test_passes data) fs"
    using Cons by simp
  show ?case
    unfolding check_ranges_step [of data f v x ri "Num lo" "Num hi" fs, OF v(1,2) r(1,2,3)]
    using IH inr age by auto
qed

lemma check_ranges_result:
  assumes "list_all (field_numeric data) fs" "set fs \<subseteq> set REQUIRED_FIELDS"
  shows "check_ranges data fs = Inr None
         \<or> check_ranges data fs = Inr (Some ''Invalid value for 'age': must be a whole number'')
              \<and> \<not> age_is_int data
         \<or> (\<exists>f ri. f \<in> set REQUIRED_FIELDS \<and> check_ranges data fs = Inr (Some (range_message f ri)))"
  using assms
proof (induction fs)
  case Nil
  then show ?case by simp
next
  case (Cons f fs)
  from Cons.prems have num: "field_numeric data f" and req: "f \<in> set REQUIRED_FIELDS" by simp_all
  from num obtain v x where v: "data f = Some v" "py_number v = Some x"
    "field_value data f = Some x" "isinstance_int v \<longleftrightarrow> (\<exists>i. v = PyInt i)"
    by (rule numeric_value)
  from field_ranges_known [OF req] obtain ri lo hi where r: "FIELD_RANGES f = Some ri"
    "py_number (range_min ri) = Some (Num lo)" "py_number (range_max ri) = Some (Num hi)"
    "spec_field_range f = Some (lo, hi)" by blast
  have age: "f = ''age'' \<Longrightarrow> age_is_int data \<longleftrightarrow> isinstance_int v"
    using v by (cases v) (simp_all add: age_is_int_def)
  have IH: "check_ranges data fs = Inr None
         \<or> check_ranges data fs = Inr (Some ''Invalid value for 'age': must be a whole number'')
              \<and> \<not> age_is_int data
         \<or> (\<exists>f ri. f \<in> set REQUIRED_FIELDS \<and> check_ranges data fs = Inr (Some (range_message f ri)))"
    using Cons by simp
  show ?case
    unfolding check_ranges_step [of data f v x ri "Num lo" "Num hi" fs, OF v(1,2) r(1,2,3)]
    using IH age req by auto
qed

lemma validate_missing:
  assumes "\<not> list_all (field_present data) REQUIRED_FIELDS"
  shows "\<exists>f. validate_inputs data = Inr (False, Some (''Missing required field: '' @ f))"
proof -
  from assms obtain m where m: "check_missing data REQUIRED_FIELDS = Some m"
    using check_missing_None [of data REQUIRED_FIELDS] by auto
  from check_missing_Some [OF m] obtain f where "m = ''Missing required field: '' @ f" ..
  with m show ?thesis by (auto simp: validate_inputs_def)
qed

lemma validate_not_numeric:
  assumes "list_all (field_present data) REQUIRED_FIELDS"
    "\<not> list_all (field_numeric data) REQUIRED_FIELDS"
  shows "\<exists>f\<in>set REQUIRED_FIELDS. validate_inputs data =
           Inr (False, Some (''Invalid value for '' @ [CHR 0x27] @ f @ [CHR 0x27]
                             @ '': must be a number''))"
proof -
  have m: "check_missing data REQUIRED_FIELDS = None"
    using assms(1) by (simp add: check_missing_None)
  have "check_types data REQUIRED_FIELDS \<noteq> Inr None"
    using assms by (simp add: check_types_None)
  with check_types_result [OF assms(1)] obtain f where f: "f \<in> set REQUIRED_FIELDS"
    "check_types data REQUIRED_FIELDS = Inr (Some (''Invalid value for '' @ [CHR 0x27] @ f
                @ [CHR 0x27] @ '': must be a number''))" by blast
  show ?thesis
    by (rule bexI [OF _ f(1)]) (simp add: validate_inputs_def m f(2))
qed

lemma cross_check:
  assumes "list_all (field_numeric data) REQUIRED_FIELDS"
  shows "(case (data ''diastolic'', data ''systolic'') of
            (Some d, Some s) \<Rightarrow>
               (case py_ge d s of
                  Inl e \<Rightarrow> Inl e
                | Inr True \<Rightarrow> Inr (False, Some ''diastolic must be less than systolic'')
                | Inr False \<Rightarrow> Inr (True, None))
          | _ \<Rightarrow> Inl KeyError) =
         (if diastolic_ge_systolic data
            then Inr (False, Some ''diastolic must be less than systolic'')
          else Inr (True, None))"
proof -
  have "field_numeric data ''diastolic''" "field_numeric data ''systolic''"
    using assms by (simp_all add: REQUIRED_FIELDS_def)
  then obtain d x s y where d: "data ''diastolic'' = Some d" "py_number d = Some x"
      "field_value data ''diastolic'' = Some x"
    and s: "data ''systolic'' = Some s" "py_number s = Some y"
      "field_value data ''systolic'' = Some y"
    by (meson numeric_value)
  show ?thesis
    by (simp add: d s py_ge_def diastolic_ge_systolic_def)
qed

lemma validate_numeric:
  assumes "list_all (field_present data) REQUIRED_FIELDS"
    "list_all (field_numeric data) REQUIRED_FIELDS"
  shows "validate_inputs data =
     (case check_ranges data REQUIRED_FIELDS of
        Inl e \<Rightarrow> Inl e
      | Inr (Some msg) \<Rightarrow> Inr (False, Some msg)
      | Inr None \<Rightarrow>
          if diastolic_ge_systolic data
            then Inr (False, Some ''diastolic must be less than systolic'')
          else Inr (True, None))"
proof -
  have m: "check_missing data REQUIRED_FIELDS = None"
    using assms(1) by (simp add: check_missing_None)
  have t: "check_types data REQUIRED_FIELDS = Inr None"
    using assms by (simp add: check_types_None)
  show ?thesis
    unfolding validate_inputs_def m t cross_check [OF assms(2)] by simp
qed

lemma check_ranges_age_first:
  assumes "field_numeric data ''age''" "\<not> age_is_int data"
  shows "check_ranges data (''age'' # fs) =
           Inr (Some ''Invalid value for 'age': must be a whole number'')"
proof -
  from assms(1) obtain v x where v: "data ''age'' = Some v" "py_number v = Some x"
    "isinstance_int v \<longleftrightarrow> (\<exists>i. v = PyInt i)"
    by (rule numeric_value)
  have "\<not> isinstance_int v" using assms(2) v by (auto simp: age_is_int_def)
  then show ?thesis using v by (simp add: FIELD_RANGES_def)
qed

lemma check_ranges_required_None:
  assumes "list_all (field_numeric data) REQUIRED_FIELDS"
  shows "check_ranges data REQUIRED_FIELDS = Inr None \<longleftrightarrow>
           age_is_int data \<and> list_all (range_test_passes data) REQUIRED_FIELDS"
  using check_ranges_None [OF assms subset_refl] by (simp add: REQUIRED_FIELDS_def)

lemma validate_in_range:
  assumes "per_field_checks_pass data"
  shows "validate_inputs data =
     (if diastolic_ge_systolic data
        then Inr (False, Some ''diastolic must be less than systolic'')
      else Inr (True, None))"
proof -
  from assms have p: "list_all (field_present data) REQUIRED_FIELDS"
    and n: "list_all (field_numeric data) REQUIRED_FIELDS"
    and r: "age_is_int data \<and> list_all (range_test_passes data) REQUIRED_FIELDS"
    by (simp_all add: per_field_checks_pass_def)
  have "check_ranges data REQUIRED_FIELDS = Inr None"
    using r by (simp add: check_ranges_required_None [OF n])
  then show ?thesis by (simp add: validate_numeric [OF p n])
qed

lemma validate_per_field_failure:
  assumes "\<not> per_field_checks_pass data"
  shows "\<exists>m. validate_inputs data = Inr (False, Some m)
           \<and> m \<noteq> ''diastolic must be less than systolic''"
proof (cases "list_all (field_present data) REQUIRED_FIELDS")
  case False
  from validate_missing [OF this] show ?thesis by auto
next
  case p: True
  show ?thesis
  proof (cases "list_all (field_numeric data) REQUIRED_FIELDS")
    case False
    from validate_not_numeric [OF p this] show ?thesis by auto
  next
    case n: True
    have "check_ranges data REQUIRED_FIELDS \<noteq> Inr None"
      using assms p n by (simp add: check_ranges_required_None [OF n] per_field_checks_pass_def)
    with check_ranges_result [OF n subset_refl]
    consider "check_ranges data REQUIRED_FIELDS =
                Inr (Some ''Invalid value for 'age': must be a whole number'')"
      | f ri where "check_ranges data REQUIRED_FIELDS = Inr (Some (range_message f ri))"
      by blast
    then show ?thesis
    proof cases
      case 1
      then show ?thesis by (simp add: validate_numeric [OF p n])
    next
      case 2
      then show ?thesis by (simp add: validate_numeric [OF p n] range_message_not_cross)
    qed
  qed
qed

text \<open>\<open>validate_inputs\<close> never raises: it always returns a pair.\<close>

lemma validate_inputs_returns: "\<exists>r. validate_inputs data = Inr r"
proof (cases "per_field_checks_pass data")
  case True
  then show ?thesis by (auto simp: validate_in_range)
next
  case False
  from validate_per_field_failure [OF this] show ?thesis by auto
qed

text \<open>
  C8 (as amended). \<open>validate_inputs\<close> fails with the message
  \<open>Invalid value for 'age': must be a whole number\<close> exactly when all five required fields
  are present and not null, all five are numeric and not boolean, and age is not of
  integer type (it is a float, whatever its value). With the other fields valid, age 30.5
  is rejected with this message and age 30 is accepted; a bmi that is not a whole number
  (22.5) is accepted.
\<close>

theorem validate_age_whole_number:
  "(validate_inputs data = Inr (False, Some ''Invalid value for 'age': must be a whole number'')
      \<longleftrightarrow> list_all (field_present data) REQUIRED_FIELDS
          \<and> list_all (field_numeric data) REQUIRED_FIELDS
          \<and> \<not> age_is_int data)
   \<and> validate_inputs (patient (PyFloat 30.5) (PyFloat 22) (PyInt 180) (PyInt 110) (PyInt 70))
       = Inr (False, Some ''Invalid value for 'age': must be a whole number'')
   \<and> validate_inputs (patient (PyInt 30) (PyFloat 22) (PyInt 180) (PyInt 110) (PyInt 70))
       = Inr (True, None)
   \<and> validate_inputs (patient (PyInt 30) (PyFloat 22.5) (PyInt 180) (PyInt 110) (PyInt 70))
       = Inr (True, None)"
proof (intro conjI)
  let ?whole = "''Invalid value for 'age': must be a whole number''"
  show "validate_inputs data = Inr (False, Some ?whole)
      \<longleftrightarrow> list_all (field_present data) REQUIRED_FIELDS
          \<and> list_all (field_numeric data) REQUIRED_FIELDS
          \<and> \<not> age_is_int data"
  proof (cases "list_all (field_present data) REQUIRED_FIELDS")
    case False
    from validate_missing [OF this] show ?thesis using False by auto
  next
    case p: True
    show ?thesis
    proof (cases "list_all (field_numeric data) REQUIRED_FIELDS")
      case False
      from validate_not_numeric [OF p this] show ?thesis
        using False not_number_message_not_whole by auto
    next
      case n: True
      show ?thesis
      proof (cases "age_is_int data")
        case False
        have "field_numeric data ''age''" using n by (simp add: REQUIRED_FIELDS_def)
        from check_ranges_age_first [OF this False]
        have "check_ranges data REQUIRED_FIELDS = Inr (Some ?whole)"
          by (simp add: REQUIRED_FIELDS_def)
        then show ?thesis using p n False by (simp add: validate_numeric [OF p n])
      next
        case True
        from check_ranges_result [OF n subset_refl] True
        consider "check_ranges data REQUIRED_FIELDS = Inr None"
          | f ri where "f \<in> set REQUIRED_FIELDS"
              "check_ranges data REQUIRED_FIELDS = Inr (Some (range_message f ri))"
          by blast
        then show ?thesis
        proof cases
          case 1
          then show ?thesis using True by (simp add: validate_numeric [OF p n])
        next
          case 2
          then show ?thesis using True range_message_not_whole [OF 2(1)]
            by (simp add: validate_numeric [OF p n])
        qed
      qed
    qed
  qed
qed (simp_all add: validate_inputs_def patient_def REQUIRED_FIELDS_def FIELD_RANGES_def
        py_lt_def py_gt_def py_ge_def)

text \<open>The theorem at a complete request whose age is the float 31.5.\<close>

theorem validate_age_whole_number_witness:
  "validate_inputs (patient (PyFloat 31.5) (PyFloat 22) (PyInt 180) (PyInt 110) (PyInt 70))
     = Inr (False, Some ''Invalid value for 'age': must be a whole number'')
   \<and> list_all (field_present
         (patient (PyFloat 31.5) (PyFloat 22) (PyInt 180) (PyInt 110) (PyInt 70)))
       REQUIRED_FIELDS"
  using validate_age_whole_number
    [of "patient (PyFloat 31.5) (PyFloat 22) (PyInt 180) (PyInt 110) (PyInt 70)"]
  by (simp add: patient_def REQUIRED_FIELDS_def field_present_def field_numeric_def
      field_value_def age_is_int_def)

text \<open>
  C8 as stated fails in both directions. A request that holds only age = 30.5 (present,
  numeric, not boolean, not integral) fails with \<open>Missing required field: bmi\<close>, not with
  the age message; and a complete valid request whose age is the float 30.0, an integral
  value, fails with the age message.
\<close>

theorem validate_age_whole_number_counterexample:
  "validate_inputs [''age'' \<mapsto> PyFloat 30.5] = Inr (False, Some ''Missing required field: bmi'')
   \<and> validate_inputs (patient (PyFloat 30) (PyFloat 22) (PyInt 180) (PyInt 110) (PyInt 70))
       = Inr (False, Some ''Invalid value for 'age': must be a whole number'')"
  by (simp add: validate_inputs_def patient_def REQUIRED_FIELDS_def FIELD_RANGES_def)

text \<open>
  What the validator does on every request. It fails with
  \<open>diastolic must be less than systolic\<close> exactly when all its per-field checks pass and
  \<open>diastolic >= systolic\<close> is true; it accepts exactly when they pass and that comparison
  is false. Diastolic = systolic = 90 is rejected with the message.
\<close>

lemma validate_cross_field_outcome:
  "(validate_inputs data = Inr (False, Some ''diastolic must be less than systolic'')
      \<longleftrightarrow> per_field_checks_pass data \<and> diastolic_ge_systolic data)
   \<and> (validate_inputs data = Inr (True, None)
      \<longleftrightarrow> per_field_checks_pass data \<and> \<not> diastolic_ge_systolic data)
   \<and> validate_inputs (patient (PyInt 30) (PyFloat 22) (PyInt 180) (PyInt 90) (PyInt 90))
       = Inr (False, Some ''diastolic must be less than systolic'')"
proof (intro conjI)
  show "validate_inputs data = Inr (False, Some ''diastolic must be less than systolic'')
      \<longleftrightarrow> per_field_checks_pass data \<and> diastolic_ge_systolic data"
  proof (cases "per_field_checks_pass data")
    case True
    then show ?thesis by (simp add: validate_in_range)
  next
    case False
    from validate_per_field_failure [OF this] show ?thesis using False by auto
  qed
  show "validate_inputs data = Inr (True, None)
      \<longleftrightarrow> per_field_checks_pass data \<and> \<not> diastolic_ge_systolic data"
  proof (cases "per_field_checks_pass data")
    case True
    then show ?thesis by (simp add: validate_in_range)
  next
    case False
    from validate_per_field_failure [OF this] show ?thesis using False by auto
  qed
  show "validate_inputs (patient (PyInt 30) (PyFloat 22) (PyInt 180) (PyInt 90) (PyInt 90))
       = Inr (False, Some ''diastolic must be less than systolic'')"
    by (simp add: validate_inputs_def patient_def REQUIRED_FIELDS_def FIELD_RANGES_def
        py_lt_def py_gt_def py_ge_def)
qed

text \<open>
  The range test and the cross-field test are comparisons, and every comparison with
  \<open>nan\<close> is false. Where no field is \<open>nan\<close> the tests are the properties they stand for: a
  field that passes its range test is in its range, and accepted data has
  diastolic < systolic.
\<close>

definition field_not_nan :: "pydict \<Rightarrow> string \<Rightarrow> bool" where
  "field_not_nan data f = (field_value data f \<noteq> Some NotANumber)"

lemma num_lt_iff_not_le:
  "x \<noteq> NotANumber \<Longrightarrow> y \<noteq> NotANumber \<Longrightarrow> num_lt x y \<longleftrightarrow> \<not> num_le y x"
  by (cases x; cases y) auto

lemma range_test_in_range:
  assumes "field_not_nan data f"
  shows "range_test_passes data f \<longleftrightarrow> field_in_range data f"
proof (cases "field_value data f")
  case None
  then show ?thesis by (simp add: range_test_passes_def field_in_range_def)
next
  case (Some x)
  then have "x \<noteq> NotANumber" using assms by (simp add: field_not_nan_def)
  then show ?thesis
    using Some num_lt_iff_not_le [of x "Num lo" for lo] num_lt_iff_not_le [of "Num hi" x for hi]
    by (auto simp: range_test_passes_def field_in_range_def split: option.splits)
qed

lemma validate_accepts_without_nan:
  assumes "validate_inputs data = Inr (True, None)"
    "field_not_nan data ''systolic''" "field_not_nan data ''diastolic''"
  shows "diastolic_lt_systolic data"
proof -
  from assms(1) have p: "per_field_checks_pass data" and g: "\<not> diastolic_ge_systolic data"
    using validate_cross_field_outcome [of data] by simp_all
  from p have "field_numeric data ''diastolic''" "field_numeric data ''systolic''"
    by (simp_all add: per_field_checks_pass_def REQUIRED_FIELDS_def)
  then obtain x y where v: "field_value data ''diastolic'' = Some x"
    "field_value data ''systolic'' = Some y"
    by (auto simp: field_numeric_def)
  have "x \<noteq> NotANumber" "y \<noteq> NotANumber"
    using assms(2,3) v by (simp_all add: field_not_nan_def)
  from num_lt_iff_not_le [OF this] g v show ?thesis
    by (simp add: diastolic_ge_systolic_def diastolic_lt_systolic_def)
qed

text \<open>
  C9. The claim: the cross-field message is returned if and only if the per-field checks
  (presence, type, integrality, range) pass and diastolic \<ge> systolic, so that validated
  data always satisfies diastolic < systolic. The code at a request whose systolic is
  \<open>nan\<close> (age 30, bmi 22.0, cholesterol 180, diastolic 80): the request is accepted, although
  systolic is not in its range 60..300 and \<open>diastolic < systolic\<close> is false. With bmi
  \<open>nan\<close> and diastolic = systolic = 90 the cross-field message is returned, although bmi
  is not in its range 10..70.
\<close>

theorem validate_accepts_nan_systolic:
  "validate_inputs (patient (PyInt 30) (PyFloat 22) (PyInt 180) PyNaN (PyInt 80))
     = Inr (True, None)
   \<and> \<not> field_in_range (patient (PyInt 30) (PyFloat 22) (PyInt 180) PyNaN (PyInt 80))
         ''systolic''
   \<and> \<not> diastolic_lt_systolic (patient (PyInt 30) (PyFloat 22) (PyInt 180) PyNaN (PyInt 80))
   \<and> py_lt (PyInt 80) PyNaN = Inr False
   \<and> validate_inputs (patient (PyInt 30) PyNaN (PyInt 180) (PyInt 90) (PyInt 90))
     = Inr (False, Some ''diastolic must be less than systolic'')
   \<and> \<not> field_in_range (patient (PyInt 30) PyNaN (PyInt 180) (PyInt 90) (PyInt 90)) ''bmi''"
  by (simp add: validate_inputs_def patient_def REQUIRED_FIELDS_def FIELD_RANGES_def
      py_lt_def py_gt_def py_ge_def field_in_range_def field_value_def spec_field_range_def
      diastolic_lt_systolic_def)

end
